theory Spec2Isabelle
  imports Complex_Main "HOL-Library.List_Lexorder" "HOL-Library.Product_Lexorder"
    "HOL-Library.Sublist"
begin

section \<open>Python text\<close>

text \<open>
  A Python \<open>str\<close> is a sequence of Unicode code points: slicing (\<open>s[:2]\<close>), comparison and
  \<open>sorted\<close> all work on code points. A string is therefore a list of code points, ordered
  lexicographically; \<open>py ''abc''\<close> is the Python literal \<open>'abc'\<close>.
\<close>

type_synonym pystr = "nat list"

definition py :: "string \<Rightarrow> pystr" where
  "py cs = map of_char cs"

text \<open>\<open>s.replace(old, new)\<close>: every non-overlapping occurrence, left to right.\<close>

function replace_from :: "pystr \<Rightarrow> pystr \<Rightarrow> pystr \<Rightarrow> pystr" where
  "replace_from old new [] = []"
| "replace_from old new (c # cs) =
     (if old \<noteq> [] \<and> take (length old) (c # cs) = old
      then new @ replace_from old new (drop (length old) (c # cs))
      else c # replace_from old new cs)"
  by pat_completeness auto
termination
  by (relation "measure (\<lambda>(old, new, s). length s)") auto

definition py_replace :: "pystr \<Rightarrow> pystr \<Rightarrow> pystr \<Rightarrow> pystr" where
  "py_replace old new s =
     (if old = [] then new @ concat (map (\<lambda>c. c # new) s) else replace_from old new s)"

text \<open>
  \<open>s.split(sep)\<close> for a non-empty separator. Python's result always has a first field, so
  the result is that field paired with the list of the remaining ones, and \<open>s.split(sep)[0]\<close>
  is its first component.
\<close>

fun py_split :: "pystr \<Rightarrow> pystr \<Rightarrow> pystr \<times> pystr list" where
  "py_split sep [] = ([], [])"
| "py_split sep (c # cs) =
     (if sep \<noteq> [] \<and> take (length sep) (c # cs) = sep
      then ([], (case py_split sep (drop (length sep - 1) cs) of (f, fs) \<Rightarrow> f # fs))
      else (case py_split sep cs of (f, fs) \<Rightarrow> (c # f, fs)))"

text \<open>\<open>s.strip()\<close> removes the characters for which \<open>str.isspace\<close> holds from both ends.\<close>

definition isspace :: "nat \<Rightarrow> bool" where
  "isspace c \<longleftrightarrow>
     (9 \<le> c \<and> c \<le> 13) \<or> (28 \<le> c \<and> c \<le> 32) \<or> c = 133 \<or> c = 160 \<or> c = 5760 \<or>
     (8192 \<le> c \<and> c \<le> 8202) \<or> c = 8232 \<or> c = 8233 \<or> c = 8239 \<or> c = 8287 \<or> c = 12288"

definition py_strip :: "pystr \<Rightarrow> pystr" where
  "py_strip s = rev (dropWhile isspace (rev (dropWhile isspace s)))"

text \<open>\<open>str(n)\<close> for an integer: its decimal digits.\<close>

fun show_nat :: "nat \<Rightarrow> pystr" where
  "show_nat n = (if n < 10 then [48 + n] else show_nat (n div 10) @ [48 + n mod 10])"

declare show_nat.simps [simp del]

definition show_int :: "int \<Rightarrow> pystr" where
  "show_int i = (if i < 0 then 45 # show_nat (nat (- i)) else show_nat (nat i))"

section \<open>Errors\<close>

text \<open>The exceptions the program can meet; a computation returns \<open>Inl\<close> of the one it raises.\<close>

datatype py_error =
  JSONDecodeError | TypeError | IndexError | KeyError | AttributeError | FileNotFoundError

definition and_then :: "'e + 'a \<Rightarrow> ('a \<Rightarrow> 'e + 'b) \<Rightarrow> 'e + 'b" where
  "and_then r f = (case r of Inl e \<Rightarrow> Inl e | Inr x \<Rightarrow> f x)"

section \<open>The JSON decoder\<close>

text \<open>
  The value \<open>json.loads\<close> returns. A float keeps its lexeme (\<open>NaN\<close>, \<open>Infinity\<close> and
  \<open>-Infinity\<close> are floats to Python's decoder); an object is the \<open>dict\<close> built from its
  members, in insertion order, a repeated key keeping its place and taking the last value.
\<close>

datatype json =
  JNull | JBool bool | JInt int | JFloat pystr | JString pystr
  | JArray "json list" | JObject "(pystr \<times> json) list"

definition is_digit :: "nat \<Rightarrow> bool" where
  "is_digit c \<longleftrightarrow> 48 \<le> c \<and> c \<le> 57"

definition json_ws :: "nat \<Rightarrow> bool" where
  "json_ws c \<longleftrightarrow> c = 32 \<or> c = 9 \<or> c = 10 \<or> c = 13"

definition hex_val :: "nat \<Rightarrow> nat option" where
  "hex_val c =
     (if 48 \<le> c \<and> c \<le> 57 then Some (c - 48)
      else if 97 \<le> c \<and> c \<le> 102 then Some (c - 87)
      else if 65 \<le> c \<and> c \<le> 70 then Some (c - 55)
      else None)"

definition hex4 :: "pystr \<Rightarrow> nat option" where
  "hex4 s =
     (case map hex_val (take 4 s) of
        [Some a, Some b, Some c, Some d] \<Rightarrow> Some (((a * 16 + b) * 16 + c) * 16 + d)
      | _ \<Rightarrow> None)"

definition unescape :: "nat \<Rightarrow> nat option" where
  "unescape e =
     (if e = 34 then Some 34 else if e = 92 then Some 92 else if e = 47 then Some 47
      else if e = 98 then Some 8 else if e = 102 then Some 12 else if e = 110 then Some 10
      else if e = 114 then Some 13 else if e = 116 then Some 9 else None)"

definition emit :: "nat \<Rightarrow> nat \<Rightarrow> (pystr \<times> nat) option \<Rightarrow> (pystr \<times> nat) option" where
  "emit x k r = (case r of None \<Rightarrow> None | Some (s, n) \<Rightarrow> Some (x # s, n + k))"

text \<open>
  \<open>scanstring\<close> in strict mode, called just after the opening quote: the decoded text and
  the number of characters read, closing quote included. A control character, an unknown
  escape, a bad \<open>\uXXXX\<close> and a missing closing quote are errors (\<open>None\<close>); a high
  surrogate followed by a low one is joined into one code point.
\<close>

function scanstring :: "pystr \<Rightarrow> (pystr \<times> nat) option" where
  "scanstring [] = None"
| "scanstring (c # cs) =
     (if c = 34 then Some ([], 1)
      else if c = 92 then
        (case cs of
           [] \<Rightarrow> None
         | e # es \<Rightarrow>
             if e = 117 then
               (case hex4 es of
                  None \<Rightarrow> None
                | Some u \<Rightarrow>
                    if 55296 \<le> u \<and> u \<le> 56319 \<and> take 2 (drop 4 es) = [92, 117] then
                      (case hex4 (drop 6 es) of
                         None \<Rightarrow> None
                       | Some u2 \<Rightarrow>
                           if 56320 \<le> u2 \<and> u2 \<le> 57343
                           then emit (65536 + ((u - 55296) * 1024 + (u2 - 56320))) 12
                                  (scanstring (drop 10 es))
                           else emit u 6 (scanstring (drop 4 es)))
                    else emit u 6 (scanstring (drop 4 es)))
             else
               (case unescape e of
                  None \<Rightarrow> None
                | Some x \<Rightarrow> emit x 2 (scanstring es)))
      else if c < 32 then None
      else emit c 1 (scanstring cs))"
  by pat_completeness auto
termination
  by (relation "measure length") auto

text \<open>
  The number pattern \<open>(-?(?:0|[1-9][0-9]*))(\.[0-9]+)?([eE][-+]?[0-9]+)?\<close>: the value and the
  length of the match. Without fraction and exponent the value is an integer.
\<close>

definition parse_int :: "pystr \<Rightarrow> int" where
  "parse_int ds = foldl (\<lambda>a d. a * 10 + int (d - 48)) 0 ds"

definition match_number :: "pystr \<Rightarrow> (json \<times> nat) option" where
  "match_number s =
     (let sign = (if take 1 s = [45] then [45] else []);
          s1 = drop (length sign) s;
          ds = takeWhile is_digit s1;
          ipart = (if take 1 ds = [48] then [48] else ds);
          s2 = drop (length ipart) s1;
          fd = takeWhile is_digit (drop 1 s2);
          frac = (if take 1 s2 = [46] \<and> fd \<noteq> [] then 46 # fd else []);
          s3 = drop (length frac) s2;
          es = (if take 1 (drop 1 s3) = [43] \<or> take 1 (drop 1 s3) = [45]
                then take 1 (drop 1 s3) else []);
          ed = takeWhile is_digit (drop (1 + length es) s3);
          ex = (if (take 1 s3 = [101] \<or> take 1 s3 = [69]) \<and> ed \<noteq> []
                then take 1 s3 @ es @ ed else [])
      in if ipart = [] then None
         else if frac = [] \<and> ex = []
         then Some (JInt (if sign = [] then parse_int ipart else - parse_int ipart),
                    length sign + length ipart)
         else Some (JFloat (sign @ ipart @ frac @ ex),
                    length sign + length ipart + length frac + length ex))"

datatype token = LBracket | RBracket | LBrace | RBrace | Comma | Colon | Scalar json

definition tok :: "token \<Rightarrow> token list option \<Rightarrow> token list option" where
  "tok t r = (case r of None \<Rightarrow> None | Some ts \<Rightarrow> Some (t # ts))"

text \<open>
  The scanner's view of the text: brackets, separators and scalars, with the whitespace
  \<open>' \t\n\r'\<close> allowed between them. The cases are tried in the order of Python's
  \<open>scan_once\<close>: string, object, array, \<open>null\<close>, \<open>true\<close>, \<open>false\<close>, number, \<open>NaN\<close>,
  \<open>Infinity\<close>, \<open>-Infinity\<close>.
\<close>

fun tokenize :: "pystr \<Rightarrow> token list option" where
  "tokenize [] = Some []"
| "tokenize (c # cs) =
     (if json_ws c then tokenize cs
      else if c = 34 then
        (case scanstring cs of
           None \<Rightarrow> None
         | Some (s, n) \<Rightarrow> tok (Scalar (JString s)) (tokenize (drop n cs)))
      else if c = 123 then tok LBrace (tokenize cs)
      else if c = 125 then tok RBrace (tokenize cs)
      else if c = 91 then tok LBracket (tokenize cs)
      else if c = 93 then tok RBracket (tokenize cs)
      else if c = 44 then tok Comma (tokenize cs)
      else if c = 58 then tok Colon (tokenize cs)
      else if take 4 (c # cs) = py ''null'' then tok (Scalar JNull) (tokenize (drop 3 cs))
      else if take 4 (c # cs) = py ''true'' then tok (Scalar (JBool True)) (tokenize (drop 3 cs))
      else if take 5 (c # cs) = py ''false'' then tok (Scalar (JBool False)) (tokenize (drop 4 cs))
      else
        (case match_number (c # cs) of
           Some (v, n) \<Rightarrow> tok (Scalar v) (tokenize (drop (n - 1) cs))
         | None \<Rightarrow>
             if take 3 (c # cs) = py ''NaN''
             then tok (Scalar (JFloat (py ''NaN''))) (tokenize (drop 2 cs))
             else if take 8 (c # cs) = py ''Infinity''
             then tok (Scalar (JFloat (py ''Infinity''))) (tokenize (drop 7 cs))
             else if take 9 (c # cs) = py ''-Infinity''
             then tok (Scalar (JFloat (py ''-Infinity''))) (tokenize (drop 8 cs))
             else None))"

text \<open>
  The grammar, as a pushdown automaton over the tokens: the stack holds the containers that
  are still open, \<open>expect\<close> says what may come next.
\<close>

datatype frame =
  InArray "json list" | InObject "(pystr \<times> json) list" | InMember "(pystr \<times> json) list" pystr

datatype expect =
  AValue | AValueOrClose | AKeyOrClose | AKey | AColon | ACommaOrClose | Finished json

fun dict_set :: "(pystr \<times> json) list \<Rightarrow> pystr \<Rightarrow> json \<Rightarrow> (pystr \<times> json) list" where
  "dict_set [] k v = [(k, v)]"
| "dict_set ((k', v') # kvs) k v =
     (if k' = k then (k, v) # kvs else (k', v') # dict_set kvs k v)"

fun complete :: "json \<Rightarrow> frame list \<Rightarrow> (expect \<times> frame list) option" where
  "complete v [] = Some (Finished v, [])"
| "complete v (InArray xs # st) = Some (ACommaOrClose, InArray (xs @ [v]) # st)"
| "complete v (InMember kvs k # st) = Some (ACommaOrClose, InObject (dict_set kvs k v) # st)"
| "complete v (InObject kvs # st) = None"

definition opens :: "expect \<Rightarrow> bool" where
  "opens e \<longleftrightarrow> e = AValue \<or> e = AValueOrClose"

definition member_key :: "json \<Rightarrow> frame list \<Rightarrow> (expect \<times> frame list) option" where
  "member_key v st =
     (case (v, st) of
        (JString k, InObject kvs # st') \<Rightarrow> Some (AColon, InMember kvs k # st')
      | _ \<Rightarrow> None)"

definition step :: "expect \<Rightarrow> frame list \<Rightarrow> token \<Rightarrow> (expect \<times> frame list) option" where
  "step e st t =
     (case t of
        Scalar v \<Rightarrow>
          if opens e then complete v st
          else if e = AKeyOrClose \<or> e = AKey then member_key v st
          else None
      | LBracket \<Rightarrow> if opens e then Some (AValueOrClose, InArray [] # st) else None
      | LBrace \<Rightarrow> if opens e then Some (AKeyOrClose, InObject [] # st) else None
      | RBracket \<Rightarrow>
          (case st of
             InArray xs # st' \<Rightarrow>
               if e = AValueOrClose \<or> e = ACommaOrClose then complete (JArray xs) st' else None
           | _ \<Rightarrow> None)
      | RBrace \<Rightarrow>
          (case st of
             InObject kvs # st' \<Rightarrow>
               if e = AKeyOrClose \<or> e = ACommaOrClose then complete (JObject kvs) st' else None
           | _ \<Rightarrow> None)
      | Comma \<Rightarrow>
          (case st of
             InArray xs # st' \<Rightarrow> if e = ACommaOrClose then Some (AValue, st) else None
           | InObject kvs # st' \<Rightarrow> if e = ACommaOrClose then Some (AKey, st) else None
           | _ \<Rightarrow> None)
      | Colon \<Rightarrow> if e = AColon then Some (AValue, st) else None)"

fun run :: "expect \<Rightarrow> frame list \<Rightarrow> token list \<Rightarrow> json option" where
  "run e st [] = (case e of Finished v \<Rightarrow> Some v | _ \<Rightarrow> None)"
| "run e st (t # ts) = (case step e st t of None \<Rightarrow> None | Some (e', st') \<Rightarrow> run e' st' ts)"

definition json_loads :: "pystr \<Rightarrow> py_error + json" where
  "json_loads s =
     (case tokenize s of
        None \<Rightarrow> Inl JSONDecodeError
      | Some ts \<Rightarrow> (case run AValue [] ts of None \<Rightarrow> Inl JSONDecodeError | Some v \<Rightarrow> Inr v))"

section \<open>Parsing the activities payload\<close>

text \<open>
  \<open>data[0]\<close> on a decoded value: the first element of a list, the first character of a text,
  \<open>IndexError\<close> when either is empty, \<open>KeyError\<close> on a dict (whose keys are all text, never
  the integer 0) and \<open>TypeError\<close> on a number, a boolean or \<open>None\<close>.
\<close>

fun subscript0 :: "json \<Rightarrow> py_error + json" where
  "subscript0 (JArray []) = Inl IndexError"
| "subscript0 (JArray (x # xs)) = Inr x"
| "subscript0 (JString []) = Inl IndexError"
| "subscript0 (JString (c # cs)) = Inr (JString [c])"
| "subscript0 (JObject kvs) = Inl KeyError"
| "subscript0 JNull = Inl TypeError"
| "subscript0 (JBool b) = Inl TypeError"
| "subscript0 (JInt i) = Inl TypeError"
| "subscript0 (JFloat l) = Inl TypeError"

text \<open>\<open>x.get(key, default)\<close>: only a dict has the method.\<close>

fun dict_get :: "json \<Rightarrow> pystr \<Rightarrow> json \<Rightarrow> py_error + json" where
  "dict_get (JObject kvs) k d = Inr (case map_of kvs k of None \<Rightarrow> d | Some v \<Rightarrow> v)"
| "dict_get JNull k d = Inl AttributeError"
| "dict_get (JBool b) k d = Inl AttributeError"
| "dict_get (JInt i) k d = Inl AttributeError"
| "dict_get (JFloat l) k d = Inl AttributeError"
| "dict_get (JString s) k d = Inl AttributeError"
| "dict_get (JArray xs) k d = Inl AttributeError"

text \<open>
  \<open>str(v)\<close> of a decoded value. The text of a float, a list or a dict (Python's float
  formatting and \<open>repr\<close>) is not modelled: it is the parameter \<open>other\<close>.
\<close>

definition py_str :: "(json \<Rightarrow> pystr) \<Rightarrow> json \<Rightarrow> pystr" where
  "py_str other v =
     (case v of
        JString s \<Rightarrow> s
      | JInt i \<Rightarrow> show_int i
      | JBool b \<Rightarrow> (if b then py ''True'' else py ''False'')
      | JNull \<Rightarrow> py ''None''
      | _ \<Rightarrow> other v)"

definition clean :: "pystr \<Rightarrow> pystr" where
  "clean activities_str =
     py_replace [93, 34] [93] (py_replace [34, 91] [91] (py_replace [34, 34] [34] activities_str))"

definition sentinel :: "json \<times> pystr" where
  "sentinel = (JString (py ''Unspecified Activity''), py ''00000'')"

text \<open>The body of the \<open>try\<close> of \<open>parse_activities\<close>, with whatever it raises.\<close>

definition try_body :: "(json \<Rightarrow> pystr) \<Rightarrow> pystr \<Rightarrow> py_error + (json \<times> pystr)" where
  "try_body other activities_str =
     and_then (json_loads (clean activities_str)) (\<lambda>data.
     and_then (subscript0 data) (\<lambda>first.
     and_then (dict_get first (py ''Description'') (JString (py ''Unspecified Activity'')))
       (\<lambda>description.
     and_then (subscript0 data) (\<lambda>first'.
     and_then (dict_get first' (py ''NIC5DigitId'') (JString (py ''00000''))) (\<lambda>code.
     Inr (description, py_str other code))))))"

text \<open>\<open>except (json.JSONDecodeError, TypeError, IndexError)\<close>: any other exception goes on.\<close>

definition caught :: "py_error \<Rightarrow> bool" where
  "caught e \<longleftrightarrow> e = JSONDecodeError \<or> e = TypeError \<or> e = IndexError"

definition parse_activities :: "(json \<Rightarrow> pystr) \<Rightarrow> pystr \<Rightarrow> py_error + (json \<times> pystr)" where
  "parse_activities other activities_str =
     (case try_body other activities_str of
        Inl e \<Rightarrow> if caught e then Inr sentinel else Inl e
      | Inr r \<Rightarrow> Inr r)"

section \<open>The table\<close>

text \<open>
  The input is the table \<open>pd.read_csv\<close> returns, one record per line of the file. Two library
  parsers are taken as already applied to their cells: \<open>raw_RegistrationDate\<close> is the value of
  \<open>pd.to_datetime(..., format='%d/%m/%Y', errors='coerce')\<close> (\<open>None\<close> is \<open>NaT\<close>; the format
  has no time of day, so a timestamp is a date, ordered as year, month, day), and
  \<open>raw_Pincode\<close> is the value of \<open>pd.to_numeric(..., errors='coerce')\<close> (\<open>None\<close> is \<open>NaN\<close>).
  A cell of a text column is text or missing; the columns \<open>State\<close> and \<open>District\<close>, which the
  program never cleans, hold text.
\<close>

type_synonym date = "nat \<times> nat \<times> nat"

datatype cell = NaN | PyNone | Text pystr

record raw_row =
  raw_RegistrationDate :: "date option"
  raw_Pincode :: "rat option"
  raw_Activities :: cell
  raw_State :: pystr
  raw_District :: pystr
  raw_EnterpriseName :: cell
  raw_CommunicationAddress :: cell

record row =
  RegistrationDate :: date
  Pincode :: pystr
  State :: pystr
  District :: pystr
  EnterpriseName :: pystr
  CommunicationAddress :: pystr
  ActivityDescription :: "pystr option"
  NIC5DigitId :: pystr
  NIC_Section :: pystr
  NIC_Section_Desc :: pystr
  NIC_Section_Code_Desc :: pystr
  NIC3DigitId :: pystr
  Industry_Suggestion :: "pystr option"

definition NIC_SECTION_MAPPING :: "(pystr \<times> pystr) list" where
  "NIC_SECTION_MAPPING =
     [(py ''01'', py ''Crop & Animal Production''), (py ''02'', py ''Forestry and Logging''),
      (py ''10'', py ''Manufacture of Food Products''), (py ''13'', py ''Manufacture of Textiles''),
      (py ''14'', py ''Manufacture of Wearing Apparel''), (py ''16'', py ''Manufacture of Wood & Cork''),
      (py ''25'', py ''Manufacture of Metal Products''), (py ''41'', py ''Construction of Buildings''),
      (py ''43'', py ''Specialised Construction''), (py ''45'', py ''Motor Vehicle Trade/Repair''),
      (py ''46'', py ''Wholesale Trade''), (py ''47'', py ''Retail Trade''),
      (py ''49'', py ''Land Transport''), (py ''55'', py ''Accommodation''),
      (py ''56'', py ''Food & Beverage Services''), (py ''62'', py ''IT & Computer Programming''),
      (py ''68'', py ''Real Estate Activities''), (py ''73'', py ''Advertising & Market Research''),
      (py ''85'', py ''Education''), (py ''86'', py ''Human Health Activities''),
      (py ''96'', py ''Other Personal Service Activities''),
      (py ''00'', py ''Unspecified Section'')]"

text \<open>\<open>str(x)\<close> of a cell, and \<open>fillna('').astype(str)\<close>.\<close>

definition str_cell :: "cell \<Rightarrow> pystr" where
  "str_cell x = (case x of NaN \<Rightarrow> py ''nan'' | PyNone \<Rightarrow> py ''None'' | Text s \<Rightarrow> s)"

definition fill_blank :: "cell \<Rightarrow> pystr" where
  "fill_blank x = (case x of NaN \<Rightarrow> [] | PyNone \<Rightarrow> [] | Text s \<Rightarrow> s)"

text \<open>\<open>.fillna(0).astype(int).astype(str)\<close>: the conversion to an integer truncates.\<close>

definition clean_pincode :: "rat option \<Rightarrow> pystr" where
  "clean_pincode p =
     (let q = (case p of None \<Rightarrow> 0 | Some x \<Rightarrow> x)
      in show_int (if 0 \<le> q then \<lfloor>q\<rfloor> else \<lceil>q\<rceil>))"

text \<open>\<open>.str[:2].replace('', '00')\<close>, \<open>.str[:3].replace('', '000')\<close> and the section label.\<close>

definition section_of :: "pystr \<Rightarrow> pystr" where
  "section_of code = (if take 2 code = [] then py ''00'' else take 2 code)"

definition subgroup_of :: "pystr \<Rightarrow> pystr" where
  "subgroup_of code = (if take 3 code = [] then py ''000'' else take 3 code)"

definition section_desc :: "pystr \<Rightarrow> pystr" where
  "section_desc sec =
     (case map_of NIC_SECTION_MAPPING sec of
        None \<Rightarrow> py ''Other/Unmapped Section''
      | Some label \<Rightarrow> label)"

text \<open>
  The columns of a record once it is normalized. The description is what the payload gave:
  \<open>None\<close> is a null one (\<open>None\<close> or \<open>NaN\<close>), and the label
  \<open>NIC3DigitId + ' - ' + ActivityDescription\<close> of such a record is missing as well.
\<close>

definition make_row :: "raw_row \<Rightarrow> date \<Rightarrow> pystr option \<Rightarrow> pystr \<Rightarrow> row" where
  "make_row x d description nic_code =
     \<lparr> RegistrationDate = d,
       Pincode = clean_pincode (raw_Pincode x),
       State = raw_State x,
       District = raw_District x,
       EnterpriseName = fill_blank (raw_EnterpriseName x),
       CommunicationAddress = fill_blank (raw_CommunicationAddress x),
       ActivityDescription = description,
       NIC5DigitId = nic_code,
       NIC_Section = section_of nic_code,
       NIC_Section_Desc = section_desc (section_of nic_code),
       NIC_Section_Code_Desc = section_of nic_code @ py '' - '' @ section_desc (section_of nic_code),
       NIC3DigitId = subgroup_of nic_code,
       Industry_Suggestion =
         (case description of
            None \<Rightarrow> None
          | Some t \<Rightarrow> Some (subgroup_of nic_code @ py '' - '' @ t)) \<rparr>"

section \<open>The loader\<close>

text \<open>\<open>Series.apply\<close> calls the function on the rows in order; the first exception ends it.\<close>

fun collect :: "(py_error + 'a) list \<Rightarrow> py_error + 'a list" where
  "collect [] = Inr []"
| "collect (r # rs) =
     (case r of
        Inl e \<Rightarrow> Inl e
      | Inr x \<Rightarrow> (case collect rs of Inl e \<Rightarrow> Inl e | Inr xs \<Rightarrow> Inr (x # xs)))"

text \<open>\<open>dropna(subset=['RegistrationDate'])\<close>: a row whose date did not parse is dropped.\<close>

fun dropna :: "(raw_row \<times> json \<times> pystr) list \<Rightarrow> (raw_row \<times> date \<times> json \<times> pystr) list" where
  "dropna [] = []"
| "dropna ((x, p) # rest) =
     (case raw_RegistrationDate x of
        None \<Rightarrow> dropna rest
      | Some d \<Rightarrow> (x, d, p) # dropna rest)"

definition is_text :: "json \<Rightarrow> bool" where
  "is_text v = (case v of JString s \<Rightarrow> True | _ \<Rightarrow> False)"

definition null_like :: "json \<Rightarrow> bool" where
  "null_like v \<longleftrightarrow> v = JNull \<or> v = JFloat (py ''NaN'')"

definition text_or_missing :: "json \<Rightarrow> pystr option" where
  "text_or_missing v = (case v of JString s \<Rightarrow> Some s | _ \<Rightarrow> None)"

text \<open>
  Lines 46 to 91 of the loader. The payloads of all rows are parsed first, then the rows
  without a date are dropped, then the label \<open>NIC3DigitId + ' - ' + ActivityDescription\<close> is
  built for the rows that are left. Concatenating text with a description that is neither
  text nor null raises \<open>TypeError\<close>; pandas lets a null description through, and the label
  of that record is missing.
\<close>

definition process :: "(json \<Rightarrow> pystr) \<Rightarrow> raw_row list \<Rightarrow> py_error + row list" where
  "process other raws =
     (case collect (map (\<lambda>x. parse_activities other (str_cell (raw_Activities x))) raws) of
        Inl e \<Rightarrow> Inl e
      | Inr parsed \<Rightarrow>
          (let kept = dropna (zip raws parsed)
           in if list_all (\<lambda>(x, d, description, nic_code).
                             is_text description \<or> null_like description) kept
              then Inr (map (\<lambda>(x, d, description, nic_code).
                               make_row x d (text_or_missing description) nic_code) kept)
              else Inl TypeError))"

text \<open>\<open>sorted(column.unique().tolist())\<close> for a column of text.\<close>

definition sorted_unique :: "pystr list \<Rightarrow> pystr list" where
  "sorted_unique xs = sort (remdups xs)"

text \<open>
  The same for the labels, some of which may be missing. \<open>unique()\<close> keeps one \<open>NaN\<close> for
  all the missing ones; \<open>sorted\<close> compares the values, and comparing a text with \<open>NaN\<close>
  raises \<open>TypeError\<close>, so that a list of labels is sorted when none is missing, is the
  single \<open>NaN\<close> when all are, and cannot be sorted otherwise.
\<close>

definition notna_values :: "'a option list \<Rightarrow> 'a list" where
  "notna_values xs = concat (map (\<lambda>v. case v of None \<Rightarrow> [] | Some t \<Rightarrow> [t]) xs)"

definition sorted_labels :: "pystr option list \<Rightarrow> py_error + pystr option list" where
  "sorted_labels xs =
     (if list_all (\<lambda>v. v \<noteq> None) xs then Inr (map Some (sorted_unique (notna_values xs)))
      else if list_all (\<lambda>v. v = None) xs then Inr [None]
      else Inl TypeError)"

text \<open>
  What the page shows, in the order of the calls. Static text carries no payload; a widget
  carries what it offers, a metric its value (the average of the daily counts, a float, is
  not modelled), the preview its rows.
\<close>

datatype kpi = Total nat | TopIndustry pystr | AverageDaily

datatype ui =
  st_error pystr | st_title | st_markdown | st_header | st_subheader
  | st_slider date date | st_selectbox "pystr list" | st_multiselect "pystr option list"
  | st_warning | st_metric kpi | st_plotly_chart | st_dataframe "row list"

type_synonym loaded =
  "row list \<times> pystr option list \<times> pystr list \<times> pystr list \<times> pystr list"

definition not_found_message :: "pystr \<Rightarrow> pystr" where
  "not_found_message file_path =
     py ''Error: The file '' @ [39] @ file_path @ [39] @
     py '' was not found. Please ensure the file is present in the same directory.''"

text \<open>
  The file system maps a path to the table \<open>pd.read_csv\<close> reads there; a path that does not
  resolve raises \<open>FileNotFoundError\<close>, the one exception the loader handles.
\<close>

definition read_csv :: "(pystr \<rightharpoonup> raw_row list) \<Rightarrow> pystr \<Rightarrow> py_error + raw_row list" where
  "read_csv fs file_path =
     (case fs file_path of None \<Rightarrow> Inl FileNotFoundError | Some raws \<Rightarrow> Inr raws)"

definition load_and_process_data ::
  "(json \<Rightarrow> pystr) \<Rightarrow> (pystr \<rightharpoonup> raw_row list) \<Rightarrow> pystr \<Rightarrow> py_error + (loaded \<times> ui list)" where
  "load_and_process_data other fs file_path =
     (case and_then (read_csv fs file_path) (process other) of
        Inl e \<Rightarrow>
          if e = FileNotFoundError
          then Inr (([], [], [], [], []), [st_error (not_found_message file_path)])
          else Inl e
      | Inr df \<Rightarrow>
          (case sorted_labels (map Industry_Suggestion df) of
             Inl e \<Rightarrow> Inl e
           | Inr industry_suggestions \<Rightarrow>
               Inr ((df,
                     industry_suggestions,
                     sorted_unique (map EnterpriseName df),
                     sorted_unique (map Pincode df),
                     sorted_unique (map CommunicationAddress df)), [])))"

section \<open>The filter pipeline\<close>

text \<open>
  The values the widgets return are inputs of the script: the slider's pair of dates, the
  two select boxes' choices and the three multi-selects' lists. A multi-select returns the
  options chosen, as they were offered: an industry label, or \<open>None\<close> for the missing label.
\<close>

record selections =
  date_range :: "date \<times> date"
  selected_state :: pystr
  selected_district :: pystr
  selected_industry :: "pystr option list"
  selected_enterprise_name :: "pystr list"
  selected_pincode :: "pystr list"

text \<open>The stages, each as the script applies it to the table it is given.\<close>

definition date_stage :: "date \<times> date \<Rightarrow> row list \<Rightarrow> row list" where
  "date_stage bounds df =
     filter (\<lambda>r. fst bounds \<le> RegistrationDate r \<and> RegistrationDate r \<le> snd bounds) df"

definition state_stage :: "pystr \<Rightarrow> row list \<Rightarrow> row list" where
  "state_stage choice df =
     (if choice = py ''All States'' then df else filter (\<lambda>r. State r = choice) df)"

definition district_stage :: "pystr \<Rightarrow> row list \<Rightarrow> row list" where
  "district_stage choice df =
     (if choice = py ''All Districts'' then df else filter (\<lambda>r. District r = choice) df)"

definition pincode_stage :: "pystr list \<Rightarrow> row list \<Rightarrow> row list" where
  "pincode_stage chosen df =
     (if chosen \<noteq> [] then filter (\<lambda>r. Pincode r \<in> set chosen) df else df)"

text \<open>
  \<open>[item.split(' - ')[0].strip() for item in selected_industry]\<close>: the missing label is a
  float and has no \<open>split\<close>.
\<close>

definition selected_nic3_codes :: "pystr option list \<Rightarrow> py_error + pystr list" where
  "selected_nic3_codes chosen =
     collect (map (\<lambda>item. case item of
                             None \<Rightarrow> Inl AttributeError
                           | Some label \<Rightarrow> Inr (py_strip (fst (py_split (py '' - '') label))))
                chosen)"

definition industry_stage :: "pystr option list \<Rightarrow> row list \<Rightarrow> py_error + row list" where
  "industry_stage chosen df =
     (if chosen \<noteq> []
      then and_then (selected_nic3_codes chosen)
             (\<lambda>codes. Inr (filter (\<lambda>r. NIC3DigitId r \<in> set codes) df))
      else Inr df)"

definition name_stage :: "pystr list \<Rightarrow> row list \<Rightarrow> row list" where
  "name_stage chosen df =
     (if chosen \<noteq> [] then filter (\<lambda>r. EnterpriseName r \<in> set chosen) df else df)"

text \<open>The script's variables, by their names.\<close>

definition min_date :: "row \<Rightarrow> row list \<Rightarrow> date" where
  "min_date r rs = fold (\<lambda>x m. min (RegistrationDate x) m) rs (RegistrationDate r)"

definition max_date :: "row \<Rightarrow> row list \<Rightarrow> date" where
  "max_date r rs = fold (\<lambda>x m. max (RegistrationDate x) m) rs (RegistrationDate r)"

definition date_filtered_df :: "selections \<Rightarrow> row list \<Rightarrow> row list" where
  "date_filtered_df sel df = date_stage (date_range sel) df"

definition state_options :: "selections \<Rightarrow> row list \<Rightarrow> pystr list" where
  "state_options sel df = py ''All States'' # sorted_unique (map State (date_filtered_df sel df))"

definition state_filtered_df :: "selections \<Rightarrow> row list \<Rightarrow> row list" where
  "state_filtered_df sel df = state_stage (selected_state sel) (date_filtered_df sel df)"

definition district_options :: "selections \<Rightarrow> row list \<Rightarrow> pystr list" where
  "district_options sel df =
     py ''All Districts'' # sorted_unique (map District (state_filtered_df sel df))"

definition district_filtered_df :: "selections \<Rightarrow> row list \<Rightarrow> row list" where
  "district_filtered_df sel df = district_stage (selected_district sel) (state_filtered_df sel df)"

definition district_filter_applied :: "selections \<Rightarrow> bool" where
  "district_filter_applied sel \<longleftrightarrow> selected_district sel \<noteq> py ''All Districts''"

definition name_options :: "selections \<Rightarrow> row list \<Rightarrow> pystr list" where
  "name_options sel df = sorted_unique (map EnterpriseName (district_filtered_df sel df))"

definition filtered_df :: "selections \<Rightarrow> row list \<Rightarrow> py_error + row list" where
  "filtered_df sel df =
     and_then (industry_stage (selected_industry sel)
                 (pincode_stage (selected_pincode sel) (district_filtered_df sel df)))
       (\<lambda>kept. Inr (name_stage (selected_enterprise_name sel) kept))"

section \<open>The indicators and the page\<close>

text \<open>
  \<open>Series.mode()\<close>: the values that occur most often among those that are not missing,
  sorted; \<open>.iloc[0]\<close> raises \<open>IndexError\<close> on an empty result.
\<close>

definition series_mode :: "pystr list \<Rightarrow> pystr list" where
  "series_mode xs =
     sort (remdups (filter (\<lambda>x. count_list xs x = fold max (map (count_list xs) xs) 0) xs))"

definition top_activity_desc :: "row list \<Rightarrow> py_error + pystr" where
  "top_activity_desc fdf =
     (if map ActivityDescription fdf \<noteq> []
      then (case series_mode (notna_values (map ActivityDescription fdf)) of
              [] \<Rightarrow> Inl IndexError
            | d # ds \<Rightarrow> Inr d)
      else Inr (py ''No Activity''))"

definition file_name :: pystr where
  "file_name = py ''/Users/thesanthoshsankaran/APU MAD/D3 Storytelling Initiative/UDYAM Dashboard/udyam statewise data/udyam_maharashtra_data_20251024-182305.csv''"

definition controls :: "selections \<Rightarrow> row \<Rightarrow> row list \<Rightarrow> loaded \<Rightarrow> ui list" where
  "controls sel r rs l =
     (case l of (df, industry_suggestions, name_suggestions, pincode_options, address_options) \<Rightarrow>
        [st_title, st_markdown,
         st_subheader, st_slider (min_date r rs) (max_date r rs),
         st_subheader, st_selectbox (state_options sel df), st_selectbox (district_options sel df),
         st_subheader, st_multiselect industry_suggestions,
         st_multiselect (map Some (name_options sel df)),
         st_multiselect (map Some pincode_options),
         st_markdown])"

definition results :: "selections \<Rightarrow> row list \<Rightarrow> pystr \<Rightarrow> ui list" where
  "results sel fdf top_desc =
     [st_header, st_metric (Total (length fdf)), st_metric (TopIndustry top_desc),
      st_metric AverageDaily, st_markdown,
      st_header, st_subheader, st_plotly_chart,
      st_header, st_subheader, st_plotly_chart, st_subheader, st_plotly_chart] @
     (if \<not> district_filter_applied sel then [st_subheader, st_plotly_chart] else []) @
     [st_markdown, st_subheader, st_dataframe fdf]"

text \<open>The script: \<open>st.stop()\<close> ends it when the table is empty.\<close>

definition dashboard ::
  "(json \<Rightarrow> pystr) \<Rightarrow> (pystr \<rightharpoonup> raw_row list) \<Rightarrow> selections \<Rightarrow> py_error + ui list" where
  "dashboard other fs sel =
     and_then (load_and_process_data other fs file_name) (\<lambda>(l, shown).
       case fst l of
         [] \<Rightarrow> Inr shown
       | r # rs \<Rightarrow>
           and_then (filtered_df sel (fst l)) (\<lambda>fdf.
             if fdf = []
             then Inr (shown @ controls sel r rs l @ [st_warning])
             else and_then (top_activity_desc fdf) (\<lambda>top_desc.
                    Inr (shown @ controls sel r rs l @ results sel fdf top_desc))))"

text \<open>
  What the widgets hold until the user changes them: \<open>value=(min_date, max_date)\<close> for the
  slider, \<open>index=0\<close> for the select boxes, \<open>default=[]\<close> for the multi-selects.
\<close>

definition default_selections :: "row \<Rightarrow> row list \<Rightarrow> selections" where
  "default_selections r rs =
     \<lparr> date_range = (min_date r rs, max_date r rs),
       selected_state = py ''All States'',
       selected_district = py ''All Districts'',
       selected_industry = [],
       selected_enterprise_name = [],
       selected_pincode = [] \<rparr>"


text \<open>Rows for the examples below.\<close>

definition sample_raw :: "date \<Rightarrow> pystr \<Rightarrow> pystr \<Rightarrow> rat \<Rightarrow> pystr \<Rightarrow> raw_row" where
  "sample_raw d st di pin act =
     \<lparr> raw_RegistrationDate = Some d, raw_Pincode = Some pin, raw_Activities = Text act,
       raw_State = st, raw_District = di, raw_EnterpriseName = Text (py ''Acme''),
       raw_CommunicationAddress = NaN \<rparr>"

definition sample_row :: "date \<Rightarrow> pystr \<Rightarrow> pystr \<Rightarrow> row" where
  "sample_row d description nic_code =
     make_row (sample_raw d (py ''Goa'') (py ''North Goa'') 403001 []) d (Some description)
       nic_code"

definition sample_sel :: "date \<times> date \<Rightarrow> selections" where
  "sample_sel bounds =
     \<lparr> date_range = bounds, selected_state = py ''All States'',
       selected_district = py ''All Districts'', selected_industry = [],
       selected_enterprise_name = [], selected_pincode = [] \<rparr>"

text \<open>The table a run of the loader leaves behind (empty when it raised).\<close>

definition loaded_table :: "py_error + (loaded \<times> ui list) \<Rightarrow> row list" where
  "loaded_table res = (case res of Inl e \<Rightarrow> [] | Inr (l, shown) \<Rightarrow> fst l)"

text \<open>A file of one record, with the given \<open>Activities\<close> cell.\<close>

definition one_row_file :: "pystr \<Rightarrow> pystr \<rightharpoonup> raw_row list" where
  "one_row_file act =
     [file_name \<mapsto> [sample_raw (2023, 1, 15) (py ''Goa'') (py ''North Goa'') 403001 act]]"








section \<open>The date range\<close>

lemma fold_min_Min:
  fixes a :: "'b::linorder"
  shows "fold (\<lambda>x m. min (g x) m) rs a = Min (insert a (g ` set rs))"
proof (induction rs arbitrary: a)
  case Nil
  then show ?case by simp
next
  case (Cons x rs)
  have "Min (insert (min (g x) a) (g ` set rs)) = Min (insert a (insert (g x) (g ` set rs)))"
  proof (cases "g ` set rs = {}")
    case True
    then show ?thesis by (simp add: min.commute)
  next
    case False
    then show ?thesis by (simp add: min.commute min.left_commute min.assoc)
  qed
  with Cons show ?case by simp
qed

lemma fold_max_Max:
  fixes a :: "'b::linorder"
  shows "fold (\<lambda>x m. max (g x) m) rs a = Max (insert a (g ` set rs))"
proof (induction rs arbitrary: a)
  case Nil
  then show ?case by simp
next
  case (Cons x rs)
  have "Max (insert (max (g x) a) (g ` set rs)) = Max (insert a (insert (g x) (g ` set rs)))"
  proof (cases "g ` set rs = {}")
    case True
    then show ?thesis by (simp add: max.commute)
  next
    case False
    then show ?thesis by (simp add: max.commute max.left_commute max.assoc)
  qed
  with Cons show ?case by simp
qed

lemma min_date_Min: "min_date r rs = Min (RegistrationDate ` set (r # rs))"
  by (simp add: min_date_def fold_min_Min)

lemma max_date_Max: "max_date r rs = Max (RegistrationDate ` set (r # rs))"
  by (simp add: max_date_def fold_max_Max)

lemma default_range_keeps_all:
  "date_stage (min_date r rs, max_date r rs) (r # rs) = r # rs"
proof -
  have "\<forall>x \<in> set (r # rs). min_date r rs \<le> RegistrationDate x \<and> RegistrationDate x \<le> max_date r rs"
    unfolding min_date_Min max_date_Max by (auto intro: Min_le Max_ge)
  then show ?thesis unfolding date_stage_def by (simp add: filter_id_conv)
qed


text \<open>
  C7: the date-range stage keeps exactly the records whose registration date lies in the
  selected range, both bounds included; the bounds the slider starts with are the least and
  the greatest date of the table, and with them every record is kept. With the range
  2023-01-01 to 2023-01-31 no record dated 2023-02-01 is kept, and every record of the
  table dated 2023-01-15 is.
\<close>

theorem date_range_inclusive:
  "date_filtered_df sel df =
     filter (\<lambda>x. fst (date_range sel) \<le> RegistrationDate x \<and> RegistrationDate x \<le> snd (date_range sel)) df
   \<and> date_range (default_selections r rs) =
       (Min (RegistrationDate ` set (r # rs)), Max (RegistrationDate ` set (r # rs)))
   \<and> date_filtered_df (default_selections r rs) (r # rs) = r # rs
   \<and> (date_range sel = ((2023, 1, 1), (2023, 1, 31)) \<longrightarrow>
        (\<forall>x. RegistrationDate x = (2023, 2, 1) \<longrightarrow> x \<notin> set (date_filtered_df sel df)) \<and>
        (\<forall>x \<in> set df. RegistrationDate x = (2023, 1, 15) \<longrightarrow> x \<in> set (date_filtered_df sel df)))"
proof (intro conjI)
  show "date_filtered_df sel df =
     filter (\<lambda>x. fst (date_range sel) \<le> RegistrationDate x \<and> RegistrationDate x \<le> snd (date_range sel)) df"
    by (simp add: date_filtered_df_def date_stage_def)
  show "date_range (default_selections r rs) =
       (Min (RegistrationDate ` set (r # rs)), Max (RegistrationDate ` set (r # rs)))"
    by (simp add: default_selections_def min_date_Min max_date_Max)
  show "date_filtered_df (default_selections r rs) (r # rs) = r # rs"
    using default_range_keeps_all [of r rs]
    by (simp add: date_filtered_df_def default_selections_def)
  show "date_range sel = ((2023, 1, 1), (2023, 1, 31)) \<longrightarrow>
        (\<forall>x. RegistrationDate x = (2023, 2, 1) \<longrightarrow> x \<notin> set (date_filtered_df sel df)) \<and>
        (\<forall>x \<in> set df. RegistrationDate x = (2023, 1, 15) \<longrightarrow> x \<in> set (date_filtered_df sel df))"
    by (simp add: date_filtered_df_def date_stage_def)
qed


theorem date_range_inclusive_witness:
  "date_range (sample_sel ((2023, 1, 1), (2023, 1, 31))) = ((2023, 1, 1), (2023, 1, 31))
   \<and> date_filtered_df (sample_sel ((2023, 1, 1), (2023, 1, 31)))
        [sample_row (2023, 1, 15) (py ''Bakery'') (py ''10710''),
         sample_row (2023, 2, 1) (py ''Bakery'') (py ''10710'')] =
        [sample_row (2023, 1, 15) (py ''Bakery'') (py ''10710'')]"
  using date_range_inclusive [of "sample_sel ((2023, 1, 1), (2023, 1, 31))"
      "[sample_row (2023, 1, 15) (py ''Bakery'') (py ''10710''),
        sample_row (2023, 2, 1) (py ''Bakery'') (py ''10710'')]"]
  by (simp add: sample_sel_def sample_row_def make_row_def)

section \<open>Pass-through\<close>

lemma and_then_Inr: "and_then r Inr = r"
  by (cases r) (simp_all add: and_then_def)

text \<open>
  C3: choosing \<open>All States\<close> or \<open>All Districts\<close> in a select box, or leaving a multi-select
  empty, makes that stage the identity, and the filtered table is the one the pipeline
  yields without that stage.
\<close>

theorem pass_through:
  "state_stage (py ''All States'') df = df
   \<and> district_stage (py ''All Districts'') df = df
   \<and> pincode_stage [] df = df \<and> industry_stage [] df = Inr df \<and> name_stage [] df = df
   \<and> filtered_df (sel\<lparr>selected_state := py ''All States''\<rparr>) df =
       and_then (industry_stage (selected_industry sel)
                   (pincode_stage (selected_pincode sel)
                     (district_stage (selected_district sel) (date_stage (date_range sel) df))))
         (\<lambda>kept. Inr (name_stage (selected_enterprise_name sel) kept))
   \<and> filtered_df (sel\<lparr>selected_district := py ''All Districts''\<rparr>) df =
       and_then (industry_stage (selected_industry sel)
                   (pincode_stage (selected_pincode sel)
                     (state_stage (selected_state sel) (date_stage (date_range sel) df))))
         (\<lambda>kept. Inr (name_stage (selected_enterprise_name sel) kept))
   \<and> filtered_df (sel\<lparr>selected_pincode := []\<rparr>) df =
       and_then (industry_stage (selected_industry sel)
                   (district_stage (selected_district sel)
                     (state_stage (selected_state sel) (date_stage (date_range sel) df))))
         (\<lambda>kept. Inr (name_stage (selected_enterprise_name sel) kept))
   \<and> filtered_df (sel\<lparr>selected_industry := []\<rparr>) df =
       Inr (name_stage (selected_enterprise_name sel) (pincode_stage (selected_pincode sel)
         (district_stage (selected_district sel)
           (state_stage (selected_state sel) (date_stage (date_range sel) df)))))
   \<and> filtered_df (sel\<lparr>selected_enterprise_name := []\<rparr>) df =
       industry_stage (selected_industry sel) (pincode_stage (selected_pincode sel)
         (district_stage (selected_district sel)
           (state_stage (selected_state sel) (date_stage (date_range sel) df))))"
proof -
  have n: "(\<lambda>kept. Inr (name_stage [] kept)) = (Inr :: row list \<Rightarrow> py_error + row list)"
    by (simp add: name_stage_def)
  show ?thesis
    by (simp add: filtered_df_def district_filtered_df_def state_filtered_df_def
      date_filtered_df_def state_stage_def district_stage_def pincode_stage_def
      n and_then_Inr)
      (simp add: industry_stage_def name_stage_def and_then_def)
qed

section \<open>A missing file\<close>

text \<open>
  C8: when the path does not resolve, the loader reports it with \<open>st.error\<close> and returns an
  empty table with empty suggestion lists; the script then stops, so the page shows the
  error message and nothing else.
\<close>

theorem file_not_found_halts:
  "(fs file_path = None \<longrightarrow>
      load_and_process_data other fs file_path =
        Inr (([], [], [], [], []), [st_error (not_found_message file_path)]))
   \<and> (fs file_name = None \<longrightarrow>
      dashboard other fs sel = Inr [st_error (not_found_message file_name)])"
  by (simp add: dashboard_def load_and_process_data_def read_csv_def and_then_def)

theorem file_not_found_halts_witness:
  "Map.empty file_name = (None :: raw_row list option)
   \<and> load_and_process_data (\<lambda>v. []) Map.empty file_name =
        Inr (([], [], [], [], []), [st_error (not_found_message file_name)])
   \<and> dashboard (\<lambda>v. []) Map.empty
        \<lparr> date_range = ((2023, 1, 1), (2023, 1, 31)), selected_state = py ''All States'',
          selected_district = py ''All Districts'', selected_industry = [],
          selected_enterprise_name = [], selected_pincode = [] \<rparr> =
        Inr [st_error (not_found_message file_name)]"
  using file_not_found_halts [of Map.empty file_name "\<lambda>v. []"
      "\<lparr> date_range = ((2023, 1, 1), (2023, 1, 31)), selected_state = py ''All States'',
         selected_district = py ''All Districts'', selected_industry = [],
         selected_enterprise_name = [], selected_pincode = [] \<rparr>"]
  by simp

section \<open>The rows of the loaded table\<close>

lemma collect_Inr: "collect rs = Inr xs \<Longrightarrow> rs = map Inr xs"
  by (induction rs arbitrary: xs) (auto split: sum.splits)


lemma dropna_set:
  "(x, d, p) \<in> set (dropna zs) \<longleftrightarrow> (x, p) \<in> set zs \<and> raw_RegistrationDate x = Some d"
  by (induction zs) (auto split: option.splits)

lemma zip_map_Inr:
  assumes "map f xs = map Inr ps" and "(x, p) \<in> set (zip xs ps)"
  shows "x \<in> set xs \<and> f x = Inr p"
proof -
  from assms(2) obtain i where i: "i < length xs" "i < length ps" "xs ! i = x" "ps ! i = p"
    by (auto simp: in_set_zip)
  have "map f xs ! i = map Inr ps ! i" using assms(1) by simp
  then have "f x = Inr p" using i by simp
  then show ?thesis using i by auto
qed

lemma process_rows:
  assumes "process other raws = Inr df" and "r \<in> set df"
  shows "\<exists>x d v nic_code.
           x \<in> set raws \<and> raw_RegistrationDate x = Some d
           \<and> parse_activities other (str_cell (raw_Activities x)) = Inr (v, nic_code)
           \<and> (is_text v \<or> null_like v)
           \<and> r = make_row x d (text_or_missing v) nic_code"
proof -
  let ?f = "\<lambda>x. parse_activities other (str_cell (raw_Activities x))"
  from assms(1) obtain parsed where c: "collect (map ?f raws) = Inr parsed"
    by (auto simp: process_def split: sum.splits)
  let ?kept = "dropna (zip raws parsed)"
  from assms(1) c
  have t: "list_all (\<lambda>(x, d, description, nic_code). is_text description \<or> null_like description)
             ?kept"
    and df: "df = map (\<lambda>(x, d, description, nic_code).
                         make_row x d (text_or_missing description) nic_code) ?kept"
    by (auto simp: process_def Let_def split: if_splits)
  from assms(2) df obtain x d v nic_code where k: "(x, d, v, nic_code) \<in> set ?kept"
    and r: "r = make_row x d (text_or_missing v) nic_code" by auto
  from t k have tv: "is_text v \<or> null_like v" by (auto simp: list_all_iff)
  from k have z: "(x, v, nic_code) \<in> set (zip raws parsed)" and d: "raw_RegistrationDate x = Some d"
    by (auto simp: dropna_set)
  from collect_Inr [OF c] z have "x \<in> set raws \<and> ?f x = Inr (v, nic_code)"
    by (rule zip_map_Inr)
  then have "x \<in> set raws \<and> raw_RegistrationDate x = Some d
      \<and> ?f x = Inr (v, nic_code) \<and> (is_text v \<or> null_like v)
      \<and> r = make_row x d (text_or_missing v) nic_code"
    using d r tv by simp
  then show ?thesis by blast
qed

lemma load_rows:
  assumes "r \<in> set (loaded_table (load_and_process_data other fs file_path))"
  shows "\<exists>raws. fs file_path = Some raws
           \<and> process other raws = Inr (loaded_table (load_and_process_data other fs file_path))"
  using assms
  by (auto simp: loaded_table_def load_and_process_data_def read_csv_def and_then_def
      split: option.splits sum.splits if_splits)

lemma loaded_row:
  assumes "r \<in> set (loaded_table (load_and_process_data other fs file_path))"
  shows "\<exists>raws x d v nic_code.
           fs file_path = Some raws \<and> x \<in> set raws \<and> raw_RegistrationDate x = Some d
           \<and> parse_activities other (str_cell (raw_Activities x)) = Inr (v, nic_code)
           \<and> (is_text v \<or> null_like v)
           \<and> r = make_row x d (text_or_missing v) nic_code"
proof -
  from load_rows [OF assms] obtain raws where f: "fs file_path = Some raws"
    and p: "process other raws = Inr (loaded_table (load_and_process_data other fs file_path))"
    by blast
  from process_rows [OF p assms] f show ?thesis by blast
qed

lemma sorted_labels_single: "\<exists>labels. sorted_labels [v] = Inr labels"
  by (cases v) (simp_all add: sorted_labels_def)

lemma one_row_table:
  assumes "parse_activities other act = Inr (v, code)" and "is_text v \<or> null_like v"
  shows "loaded_table (load_and_process_data other (one_row_file act) file_name) =
     [make_row (sample_raw (2023, 1, 15) (py ''Goa'') (py ''North Goa'') 403001 act)
        (2023, 1, 15) (text_or_missing v) code]"
proof -
  let ?r = "make_row (sample_raw (2023, 1, 15) (py ''Goa'') (py ''North Goa'') 403001 act)
        (2023, 1, 15) (text_or_missing v) code"
  have p: "and_then (read_csv (one_row_file act) file_name) (process other) = Inr [?r]"
    using assms
    by (simp add: read_csv_def and_then_def process_def one_row_file_def sample_raw_def
        str_cell_def)
  obtain labels where l: "sorted_labels [Industry_Suggestion ?r] = Inr labels"
    using sorted_labels_single by blast
  show ?thesis unfolding load_and_process_data_def p sum.case list.map l
    by (simp add: loaded_table_def)
qed

lemma one_row_load:
  assumes "parse_activities other act = Inr (v, code)" and "is_text v \<or> null_like v"
  shows "\<exists>ind nm pin addr.
     load_and_process_data other (one_row_file act) file_name =
       Inr (([make_row (sample_raw (2023, 1, 15) (py ''Goa'') (py ''North Goa'') 403001 act)
                (2023, 1, 15) (text_or_missing v) code], ind, nm, pin, addr), [])"
proof -
  let ?r = "make_row (sample_raw (2023, 1, 15) (py ''Goa'') (py ''North Goa'') 403001 act)
        (2023, 1, 15) (text_or_missing v) code"
  have p: "and_then (read_csv (one_row_file act) file_name) (process other) = Inr [?r]"
    using assms
    by (simp add: read_csv_def and_then_def process_def one_row_file_def sample_raw_def
        str_cell_def)
  obtain labels where l: "sorted_labels [Industry_Suggestion ?r] = Inr labels"
    using sorted_labels_single by blast
  show ?thesis unfolding load_and_process_data_def p sum.case list.map l
    by simp
qed

lemma empty_code_payload: \<open>
  parse_activities other (py ''[{""Description"":""Bakery"",""NIC5DigitId"":""""}]'') =
    Inr (JString (py ''Bakery''), [])\<close>
  by code_simp


lemma bakery_payload: \<open>
  parse_activities other (py ''[{""Description"":""Bakery"",""NIC5DigitId"":""10710""}]'') =
    Inr (JString (py ''Bakery''), py ''10710'')\<close>
  by code_simp

lemma null_description_payload: \<open>
  parse_activities other (py ''[{""Description"":null,""NIC5DigitId"":""10710""}]'') =
    Inr (JNull, py ''10710'')\<close>
  by code_simp

lemma text_is_text: "is_text (JString t) \<or> null_like (JString t)"
  by (simp add: is_text_def)

lemma null_is_null: "is_text JNull \<or> null_like JNull"
  by (simp add: null_like_def)

section \<open>Payloads that fail to parse\<close>






text \<open>
  C1: the handler of \<open>parse_activities\<close> names \<open>JSONDecodeError\<close>, \<open>TypeError\<close> and
  \<open>IndexError\<close>. A payload that decodes to a JSON object makes \<open>data[0]\<close> raise \<open>KeyError\<close>,
  and one that decodes to a text, or to a list whose first element is not an object, makes
  \<open>.get\<close> raise \<open>AttributeError\<close>; neither is caught, and the loader, which handles
  \<open>FileNotFoundError\<close> only, raises it too.
\<close>

theorem parse_activities_uncaught: \<open>
  parse_activities other (py ''{}'') = Inl KeyError
  \<and> parse_activities other (py ''{"Description":"Bakery","NIC5DigitId":"10710"}'') = Inl KeyError
  \<and> parse_activities other (py ''"Bakery"'') = Inl AttributeError
  \<and> parse_activities other (py ''["Bakery"]'') = Inl AttributeError
  \<and> load_and_process_data other
       [file_name \<mapsto> [sample_raw d st di pin (py ''{}'')]] file_name = Inl KeyError\<close>
proof -
  have a: "parse_activities other (py ''{}'') = Inl KeyError" by code_simp
  have b: \<open>parse_activities other (py ''{"Description":"Bakery","NIC5DigitId":"10710"}'') = Inl KeyError\<close>
    by code_simp
  have c: \<open>parse_activities other (py ''"Bakery"'') = Inl AttributeError\<close> by code_simp
  have d: \<open>parse_activities other (py ''["Bakery"]'') = Inl AttributeError\<close> by code_simp
  have e: "load_and_process_data other
       [file_name \<mapsto> [sample_raw d st di pin (py ''{}'')]] file_name = Inl KeyError"
    by (simp add: load_and_process_data_def read_csv_def and_then_def process_def
        sample_raw_def str_cell_def a)
  show ?thesis using a b c d e by simp
qed

section \<open>The top industry description\<close>

lemma fold_max_nat_Max: "fold max ys (m::nat) = Max (set (m # ys))"
  using Max.set_eq_fold [of m ys] by simp

lemma max_count_attained:
  assumes "xs \<noteq> []"
  shows "\<exists>x \<in> set xs. count_list xs x = fold max (map (count_list xs) xs) 0"
proof -
  let ?S = "set (0 # map (count_list xs) xs)"
  have fin: "finite ?S" and ne: "?S \<noteq> {}" by simp_all
  have "Max ?S \<in> ?S" using Max_in [OF fin ne] .
  moreover have "Max ?S \<noteq> 0"
  proof -
    obtain x where x: "x \<in> set xs" using assms by (cases xs) auto
    then have "count_list xs x \<noteq> 0" by (simp add: count_list_0_iff)
    then have "0 < count_list xs x" by simp
    moreover have "count_list xs x \<le> Max ?S" using x by (intro Max_ge) auto
    ultimately show ?thesis by simp
  qed
  ultimately show ?thesis by (auto simp: fold_max_nat_Max)
qed

lemma max_count_ge: "count_list xs x \<le> fold max (map (count_list xs) xs) 0"
proof (cases "x \<in> set xs")
  case True
  then show ?thesis unfolding fold_max_nat_Max by (intro Max_ge) auto
next
  case False
  then show ?thesis by (simp add: count_list_0_iff)
qed

lemma sort_head_least:
  fixes xs :: "('a::linorder) list"
  assumes "sort xs = y # ys"
  shows "y \<in> set xs \<and> (\<forall>x \<in> set xs. y \<le> x)"
proof -
  have "sorted (sort xs)" by simp
  then have s: "sorted (y # ys)" using assms by simp
  have "set (sort xs) = set xs" by simp
  then have e: "set (y # ys) = set xs" using assms by simp
  show ?thesis using s e by auto
qed

lemma series_mode_nonempty: "xs \<noteq> [] \<Longrightarrow> series_mode xs \<noteq> []"
proof -
  assume "xs \<noteq> []"
  then obtain x where "x \<in> set xs" "count_list xs x = fold max (map (count_list xs) xs) 0"
    using max_count_attained by blast
  then have "x \<in> set (series_mode xs)" by (simp add: series_mode_def)
  then show ?thesis by auto
qed

lemma series_mode_Nil: "series_mode [] = []"
  by (simp add: series_mode_def)

lemma set_notna_values: "set (notna_values xs) = {t. Some t \<in> set xs}"
  by (induction xs) (auto simp: notna_values_def split: option.splits)

lemma count_notna_values: "count_list (notna_values xs) t = count_list xs (Some t)"
  by (induction xs) (auto simp: notna_values_def split: option.splits)

lemma notna_values_all_missing: "list_all (\<lambda>v. v = None) xs \<Longrightarrow> notna_values xs = []"
  by (induction xs) (auto simp: notna_values_def)

text \<open>
  C9: \<open>mode()\<close> leaves the missing descriptions out. On a table with a description that is
  not missing, the indicator is a description of the table that occurs at least as often as
  every other one; among the descriptions that occur as often as it does it is the least in
  the order of the texts, which is the order \<open>mode()\<close> returns the most frequent values in.
  On a table that is not empty and whose descriptions are all missing, \<open>mode()\<close> is empty
  and \<open>.iloc[0]\<close> raises \<open>IndexError\<close>: the guard of the script tests the column, which is
  not empty.
\<close>

theorem top_activity_desc_most_frequent:
  "(fdf \<noteq> [] \<and> list_all (\<lambda>r. ActivityDescription r = None) fdf \<longrightarrow>
      top_activity_desc fdf = Inl IndexError)
   \<and> (\<not> list_all (\<lambda>r. ActivityDescription r = None) fdf \<longrightarrow>
      (\<exists>d. top_activity_desc fdf = Inr d
           \<and> Some d \<in> set (map ActivityDescription fdf)
           \<and> (\<forall>x. count_list (map ActivityDescription fdf) (Some x)
                    \<le> count_list (map ActivityDescription fdf) (Some d))
           \<and> (\<forall>x. count_list (map ActivityDescription fdf) (Some x)
                    = count_list (map ActivityDescription fdf) (Some d) \<longrightarrow> d \<le> x)))"
proof (intro conjI impI)
  assume a: "fdf \<noteq> [] \<and> list_all (\<lambda>r. ActivityDescription r = None) fdf"
  then have "list_all (\<lambda>v. v = None) (map ActivityDescription fdf)"
    by (simp add: list_all_iff)
  then have "notna_values (map ActivityDescription fdf) = []"
    by (rule notna_values_all_missing)
  with a show "top_activity_desc fdf = Inl IndexError"
    by (simp add: top_activity_desc_def series_mode_Nil)
next
  assume a: "\<not> list_all (\<lambda>r. ActivityDescription r = None) fdf"
  let ?col = "map ActivityDescription fdf"
  let ?xs = "notna_values ?col"
  let ?m = "fold max (map (count_list ?xs) ?xs) 0"
  from a obtain r t where "r \<in> set fdf" "ActivityDescription r = Some t"
    by (auto simp: list_all_iff)
  then have "Some t \<in> set ?col" by force
  then have ne: "?xs \<noteq> []" using set_notna_values [of ?col] by auto
  have cne: "?col \<noteq> []" using \<open>r \<in> set fdf\<close> by auto
  obtain d ds where m: "series_mode ?xs = d # ds"
    using series_mode_nonempty [OF ne] by (cases "series_mode ?xs") auto
  have top: "top_activity_desc fdf = Inr d" using cne m by (simp add: top_activity_desc_def)
  from m have hd: "d \<in> set (remdups (filter (\<lambda>x. count_list ?xs x = ?m) ?xs))"
    and least: "\<forall>x \<in> set (remdups (filter (\<lambda>x. count_list ?xs x = ?m) ?xs)). d \<le> x"
    using sort_head_least [of "remdups (filter (\<lambda>x. count_list ?xs x = ?m) ?xs)" d ds]
    unfolding series_mode_def by blast+
  from hd have din: "d \<in> set ?xs" and dmax: "count_list ?xs d = ?m" by auto
  have dcol: "Some d \<in> set ?col" using din set_notna_values [of ?col] by simp
  have ge: "\<forall>x. count_list ?xs x \<le> count_list ?xs d" using dmax max_count_ge [of ?xs] by simp
  have tie: "\<forall>x. count_list ?xs x = count_list ?xs d \<longrightarrow> d \<le> x"
  proof (intro allI impI)
    fix x assume e: "count_list ?xs x = count_list ?xs d"
    have "count_list ?xs d \<noteq> 0" using din by (simp add: count_list_0_iff)
    then have "count_list ?xs x \<noteq> 0" using e by simp
    then have "x \<in> set ?xs" by (simp add: count_list_0_iff)
    then show "d \<le> x" using least e dmax by simp
  qed
  show "\<exists>d. top_activity_desc fdf = Inr d
           \<and> Some d \<in> set ?col
           \<and> (\<forall>x. count_list ?col (Some x) \<le> count_list ?col (Some d))
           \<and> (\<forall>x. count_list ?col (Some x) = count_list ?col (Some d) \<longrightarrow> d \<le> x)"
    using top dcol ge tie unfolding count_notna_values by blast
qed

text \<open>
  Two descriptions that occur once each, and the file of one record whose description is
  \<open>null\<close>: the table loads, and the script raises \<open>IndexError\<close> on it.
\<close>

theorem top_activity_desc_most_frequent_witness: \<open>
  top_activity_desc [sample_row (2023, 1, 15) (py ''b'') (py ''10710''),
                     sample_row (2023, 1, 16) (py ''a'') (py ''10710'')] = Inr (py ''a'')
  \<and> map ActivityDescription
      (loaded_table (load_and_process_data (\<lambda>v. [])
         (one_row_file (py ''[{""Description"":null,""NIC5DigitId"":""10710""}]'')) file_name)) =
      [None]
  \<and> top_activity_desc
      (loaded_table (load_and_process_data (\<lambda>v. [])
         (one_row_file (py ''[{""Description"":null,""NIC5DigitId"":""10710""}]'')) file_name)) =
      Inl IndexError
  \<and> dashboard (\<lambda>v. [])
      (one_row_file (py ''[{""Description"":null,""NIC5DigitId"":""10710""}]''))
      (sample_sel ((2023, 1, 1), (2023, 1, 31))) = Inl IndexError\<close>
proof -
  let ?f = \<open>one_row_file (py ''[{""Description"":null,""NIC5DigitId"":""10710""}]'')\<close>
  define r0 where \<open>r0 = make_row (sample_raw (2023, 1, 15) (py ''Goa'') (py ''North Goa'') 403001
        (py ''[{""Description"":null,""NIC5DigitId"":""10710""}]'')) (2023, 1, 15)
        (text_or_missing JNull) (py ''10710'')\<close>
  define ra where "ra = sample_row (2023, 1, 16) (py ''a'') (py ''10710'')"
  define rb where "rb = sample_row (2023, 1, 15) (py ''b'') (py ''10710'')"
  have d: "ActivityDescription ra = Some (py ''a'')" "ActivityDescription rb = Some (py ''b'')"
    "ActivityDescription r0 = None" "RegistrationDate r0 = (2023, 1, 15)"
    "State r0 = py ''Goa''" "District r0 = py ''North Goa''"
    unfolding ra_def rb_def r0_def
    by (simp_all add: sample_row_def make_row_def text_or_missing_def sample_raw_def)
  have t: "loaded_table (load_and_process_data (\<lambda>v. []) ?f file_name) = [r0]"
    unfolding r0_def by (rule one_row_table [OF null_description_payload null_is_null])
  obtain ind nm pin addr where
    l: "load_and_process_data (\<lambda>v. []) ?f file_name = Inr (([r0], ind, nm, pin, addr), [])"
    using one_row_load [OF null_description_payload null_is_null, of "\<lambda>v. []"]
    unfolding r0_def by blast
  have a: "\<not> list_all (\<lambda>r. ActivityDescription r = None) [rb, ra]" by (simp add: d)
  have b: "[r0] \<noteq> [] \<and> list_all (\<lambda>r. ActivityDescription r = None) [r0]" by (simp add: d)
  have o: "py ''a'' \<le> py ''b''" "py ''a'' \<noteq> py ''b''" by (simp_all add: py_def)
  from top_activity_desc_most_frequent [of "[rb, ra]"] a
  obtain x where x: "top_activity_desc [rb, ra] = Inr x"
    and m: "Some x \<in> set (map ActivityDescription [rb, ra])"
    and least: "\<forall>y. count_list (map ActivityDescription [rb, ra]) (Some y)
                    = count_list (map ActivityDescription [rb, ra]) (Some x) \<longrightarrow> x \<le> y"
    by blast
  from m have "x = py ''a'' \<or> x = py ''b''" by (auto simp: d)
  moreover have "x \<noteq> py ''b''"
  proof
    assume "x = py ''b''"
    with least [rule_format, of "py ''a''"] o show False by (simp add: d)
  qed
  ultimately have xa: "x = py ''a''" by simp
  have i: "top_activity_desc [r0] = Inl IndexError"
    using top_activity_desc_most_frequent [of "[r0]"] b by blast
  define sel0 where "sel0 = sample_sel ((2023, 1, 1), (2023, 1, 31))"
  have f: "filtered_df sel0 [r0] = Inr [r0]"
    unfolding sel0_def
    by (simp add: filtered_df_def district_filtered_df_def state_filtered_df_def
        date_filtered_df_def date_stage_def state_stage_def district_stage_def
        pincode_stage_def industry_stage_def name_stage_def and_then_def sample_sel_def d
        less_eq_prod_def)
  have g: "dashboard (\<lambda>v. []) ?f sel0 = Inl IndexError"
    unfolding dashboard_def l by (simp add: and_then_def f i)
  show ?thesis
    using x xa i g unfolding t ra_def rb_def sel0_def by (simp add: d)
qed

section \<open>The classification codes\<close>

lemma section_of_cases:
  "section_of code = (if code = [] then py ''00'' else take 2 code)"
  by (cases code) (simp_all add: section_of_def)

lemma subgroup_of_cases:
  "subgroup_of code = (if code = [] then py ''000'' else take 3 code)"
  by (cases code) (simp_all add: subgroup_of_def)

lemma make_row_codes:
  "NIC5DigitId (make_row x d description code) = code
   \<and> NIC_Section (make_row x d description code) = section_of code
   \<and> NIC3DigitId (make_row x d description code) = subgroup_of code
   \<and> NIC_Section_Desc (make_row x d description code) = section_desc (section_of code)
   \<and> ActivityDescription (make_row x d description code) = description"
  by (simp add: make_row_def)

text \<open>
  C4: the section code is \<open>NIC5DigitId.str[:2].replace('', '00')\<close> and the subgroup code
  \<open>NIC5DigitId.str[:3].replace('', '000')\<close>. For every record of the loaded table the
  section code is the first two characters of the five-digit code and the subgroup code the
  first three (the whole code when it is shorter), so that both are prefixes of it, unless
  the five-digit code is the empty text: then they are \<open>'00'\<close> and \<open>'000'\<close>. The section
  label is the entry of \<open>NIC_SECTION_MAPPING\<close> for the section code, or
  \<open>'Other/Unmapped Section'\<close> when the table has no such key.
\<close>

theorem section_codes_are_prefixes:
  assumes "r \<in> set (loaded_table (load_and_process_data other fs file_path))"
  shows "NIC_Section r = (if NIC5DigitId r = [] then py ''00'' else take 2 (NIC5DigitId r))
       \<and> NIC3DigitId r = (if NIC5DigitId r = [] then py ''000'' else take 3 (NIC5DigitId r))
       \<and> (NIC5DigitId r \<noteq> [] \<longrightarrow>
            prefix (NIC_Section r) (NIC5DigitId r) \<and> prefix (NIC3DigitId r) (NIC5DigitId r))
       \<and> (map_of NIC_SECTION_MAPPING (NIC_Section r) = Some (NIC_Section_Desc r)
            \<or> map_of NIC_SECTION_MAPPING (NIC_Section r) = None
              \<and> NIC_Section_Desc r = py ''Other/Unmapped Section'')"
proof -
  from loaded_row [OF assms] obtain x d v code where
    r: "r = make_row x d (text_or_missing v) code" by blast
  have c: "NIC5DigitId r = code" "NIC_Section r = section_of code"
    "NIC3DigitId r = subgroup_of code" "NIC_Section_Desc r = section_desc (section_of code)"
    using make_row_codes [of x d "text_or_missing v" code] r by simp_all
  have q: "section_of code = (if code = [] then py ''00'' else take 2 code)"
    "subgroup_of code = (if code = [] then py ''000'' else take 3 code)"
    by (rule section_of_cases, rule subgroup_of_cases)
  have p: "code \<noteq> [] \<longrightarrow> prefix (section_of code) code \<and> prefix (subgroup_of code) code"
    by (simp add: section_of_cases subgroup_of_cases take_is_prefix)
  have m: "map_of NIC_SECTION_MAPPING (section_of code) = Some (section_desc (section_of code))
            \<or> map_of NIC_SECTION_MAPPING (section_of code) = None
              \<and> section_desc (section_of code) = py ''Other/Unmapped Section''"
    by (cases "map_of NIC_SECTION_MAPPING (section_of code)") (simp_all add: section_desc_def)
  show ?thesis unfolding c using q p m by blast
qed

theorem section_codes_are_prefixes_witness: \<open>
  map (\<lambda>r. (ActivityDescription r, NIC5DigitId r, NIC_Section r, NIC3DigitId r, NIC_Section_Desc r))
    (loaded_table (load_and_process_data (\<lambda>v. [])
       (one_row_file (py ''[{""Description"":""Bakery"",""NIC5DigitId"":""10710""}]'')) file_name)) =
    [(Some (py ''Bakery''), py ''10710'', py ''10'', py ''107'', py ''Manufacture of Food Products'')]
  \<and> list_all (\<lambda>r. NIC_Section r = take 2 (NIC5DigitId r) \<and> NIC3DigitId r = take 3 (NIC5DigitId r)
                   \<and> prefix (NIC_Section r) (NIC5DigitId r) \<and> prefix (NIC3DigitId r) (NIC5DigitId r)
                   \<and> map_of NIC_SECTION_MAPPING (NIC_Section r) = Some (NIC_Section_Desc r))
      (loaded_table (load_and_process_data (\<lambda>v. [])
         (one_row_file (py ''[{""Description"":""Bakery"",""NIC5DigitId"":""10710""}]'')) file_name))\<close>
proof -
  let ?t = \<open>loaded_table (load_and_process_data (\<lambda>v. [])
       (one_row_file (py ''[{""Description"":""Bakery"",""NIC5DigitId"":""10710""}]'')) file_name)\<close>
  define r0 where \<open>r0 = make_row (sample_raw (2023, 1, 15) (py ''Goa'') (py ''North Goa'') 403001
        (py ''[{""Description"":""Bakery"",""NIC5DigitId"":""10710""}]'')) (2023, 1, 15)
        (text_or_missing (JString (py ''Bakery''))) (py ''10710'')\<close>
  have t: "?t = [r0]" unfolding r0_def by (rule one_row_table [OF bakery_payload text_is_text])
  have v: "NIC5DigitId r0 = py ''10710''" "ActivityDescription r0 = Some (py ''Bakery'')"
    "NIC_Section_Desc r0 = py ''Manufacture of Food Products''"
    unfolding r0_def
    by (simp_all add: make_row_def section_of_def subgroup_of_def section_desc_def
        text_or_missing_def NIC_SECTION_MAPPING_def py_def)
  have m: "r0 \<in> set ?t" unfolding t by simp
  have k: "NIC_Section r0 = (if py ''10710'' = [] then py ''00'' else take 2 (py ''10710''))
       \<and> NIC3DigitId r0 = (if py ''10710'' = [] then py ''000'' else take 3 (py ''10710''))
       \<and> (py ''10710'' \<noteq> [] \<longrightarrow>
            prefix (NIC_Section r0) (py ''10710'') \<and> prefix (NIC3DigitId r0) (py ''10710''))
       \<and> (map_of NIC_SECTION_MAPPING (NIC_Section r0) = Some (py ''Manufacture of Food Products'')
            \<or> map_of NIC_SECTION_MAPPING (NIC_Section r0) = None
              \<and> py ''Manufacture of Food Products'' = py ''Other/Unmapped Section'')"
    using section_codes_are_prefixes [OF m] unfolding v .
  have n: "py ''10710'' \<noteq> []" "take 2 (py ''10710'') = py ''10''" "take 3 (py ''10710'') = py ''107''"
    "py ''Manufacture of Food Products'' \<noteq> py ''Other/Unmapped Section''"
    by (simp_all add: py_def)
  from k n have s: "NIC_Section r0 = py ''10''" "NIC3DigitId r0 = py ''107''"
    "prefix (NIC_Section r0) (py ''10710'')" "prefix (NIC3DigitId r0) (py ''10710'')"
    "map_of NIC_SECTION_MAPPING (NIC_Section r0) = Some (py ''Manufacture of Food Products'')"
    by auto
  show ?thesis unfolding t list.map list.pred_inject v using s n by simp
qed

text \<open>
  A payload whose code is the empty text (the four quotes of the cell are cleaned to two)
  parses; the record gets section \<open>'00'\<close> and subgroup \<open>'000'\<close>, which are not prefixes of
  its empty five-digit code.
\<close>

theorem empty_code_not_prefix: \<open>
  map (\<lambda>r. (NIC5DigitId r, NIC_Section r, NIC3DigitId r))
    (loaded_table (load_and_process_data (\<lambda>v. [])
       (one_row_file (py ''[{""Description"":""Bakery"",""NIC5DigitId"":""""}]'')) file_name)) =
    [([], py ''00'', py ''000'')]
  \<and> \<not> prefix (py ''00'') []
  \<and> \<not> list_all (\<lambda>r. prefix (NIC_Section r) (NIC5DigitId r) \<and> prefix (NIC3DigitId r) (NIC5DigitId r))
      (loaded_table (load_and_process_data (\<lambda>v. [])
         (one_row_file (py ''[{""Description"":""Bakery"",""NIC5DigitId"":""""}]'')) file_name))\<close>
  unfolding one_row_table [OF empty_code_payload text_is_text]
  by (simp add: make_row_def section_of_def subgroup_of_def py_def)









section \<open>The industry stage\<close>








section \<open>The options of the widgets\<close>






















end
